theory Spec2Isabelle
  imports Complex_Main
begin

section \<open>Numbers\<close>

text \<open>
  The analytics of \<^verbatim>\<open>app/services/analyze.py\<close> compute on Python floats and ints.
  A float is modelled by the rational number it stands for (type \<^typ>\<open>rat\<close>): arithmetic
  is exact, and there is no NaN or infinity. Counts are natural numbers.

  Python's \<^verbatim>\<open>round\<close> rounds to the nearest value and sends a tie to the even
  neighbour; \<^verbatim>\<open>round(x, n)\<close> does so at the n-th decimal.
\<close>

definition py_round :: "rat \<Rightarrow> int" where
  "py_round x =
     (let f = \<lfloor>x\<rfloor>; d = x - of_int f
      in if d < 1 / 2 then f
         else if 1 / 2 < d then f + 1
         else if even f then f else f + 1)"

definition round_nd :: "nat \<Rightarrow> rat \<Rightarrow> rat" where
  "round_nd n x = of_int (py_round (x * 10 ^ n)) / 10 ^ n"

text \<open>\<^verbatim>\<open>def pct(n, d): return round((n / d * 100.0), 2) if d else 0.0\<close>\<close>

definition pct :: "nat \<Rightarrow> nat \<Rightarrow> rat" where
  "pct n d = (if d \<noteq> 0 then round_nd 2 (of_nat n / of_nat d * 100) else 0)"

text \<open>
  \<^verbatim>\<open>safe_float\<close>: an absent value stays absent; a value that \<^verbatim>\<open>float\<close> accepts is
  that float. The normalized record holds a float or \<^verbatim>\<open>None\<close> in its price fields, so the
  conversion never fails on them.
\<close>

definition safe_float :: "rat option \<Rightarrow> rat option" where
  "safe_float x = (case x of None \<Rightarrow> None | Some v \<Rightarrow> Some v)"

section \<open>Discount percentage\<close>

definition compute_discount_pct :: "rat option \<Rightarrow> rat option \<Rightarrow> rat option" where
  "compute_discount_pct price_min compare_at_min =
     (case price_min of
        None \<Rightarrow> None
      | Some pr \<Rightarrow>
          (case compare_at_min of
             None \<Rightarrow> None
           | Some ca \<Rightarrow>
               if pr < ca \<and> 0 < ca then Some (round_nd 2 ((ca - pr) / ca * 100))
               else None))"

section \<open>Positioning scores\<close>


definition usable :: "(rat option \<times> rat) list \<Rightarrow> (rat \<times> rat) list" where
  "usable parts = concat (map (\<lambda>(v, w). case v of None \<Rightarrow> [] | Some x \<Rightarrow> [(x, w)]) parts)"



section \<open>Text\<close>

text \<open>
  A Python string is modelled by the bytes of its UTF-8 encoding, which decides equality of
  strings exactly. The two characters of the source outside ASCII are the en dash of the
  price-band labels and the em dash of the launch sentences.
\<close>

definition en_dash :: string where
  "en_dash = [CHR 0xE2, CHR 0x80, CHR 0x93]"

definition em_dash :: string where
  "em_dash = [CHR 0xE2, CHR 0x80, CHR 0x94]"

definition digit_char :: "nat \<Rightarrow> char" where
  "digit_char n = ''0123456789'' ! (n mod 10)"

text \<open>\<^verbatim>\<open>str(n)\<close> of a non-negative int.\<close>

fun str_nat :: "nat \<Rightarrow> string" where
  "str_nat n = (if n < 10 then [digit_char n] else str_nat (n div 10) @ [digit_char (n mod 10)])"

definition sign_minus :: "rat \<Rightarrow> string" where
  "sign_minus x = (if x < 0 then ''-'' else [])"

text \<open>
  \<^verbatim>\<open>str(x)\<close> of a float that \<^verbatim>\<open>round(_, 2)\<close> or \<^verbatim>\<open>round(_, 1)\<close> produced: the shortest
  decimal that reads back as the same float, which is the integer part, a point, and the
  one or two decimals without a trailing zero (\<^verbatim>\<open>50.0\<close>, \<^verbatim>\<open>33.33\<close>, \<^verbatim>\<open>12.5\<close>). Python
  switches to exponent notation from \<^verbatim>\<open>1e16\<close> on, which the rounded values of a catalog
  do not reach.
\<close>

definition str_float :: "rat \<Rightarrow> string" where
  "str_float x =
     (let h = nat \<lfloor>\<bar>x\<bar> * 100\<rfloor>;
          frac = h mod 100
      in sign_minus x @ str_nat (h div 100) @ ''.''
         @ (if frac mod 10 = 0 then [digit_char (frac div 10)]
            else [digit_char (frac div 10), digit_char (frac mod 10)]))"

text \<open>The format \<^verbatim>\<open>{x:.2f}\<close>: two decimals, always.\<close>

definition fmt_2f :: "rat \<Rightarrow> string" where
  "fmt_2f x =
     (let h = nat \<bar>py_round (x * 100)\<bar>
      in sign_minus x @ str_nat (h div 100) @ ''.''
         @ [digit_char ((h mod 100) div 10), digit_char (h mod 10)])"

text \<open>The format \<^verbatim>\<open>{x:+.0f}\<close>: the sign, always, and the nearest integer.\<close>

definition fmt_plus_0f :: "rat \<Rightarrow> string" where
  "fmt_plus_0f x = (if x < 0 then ''-'' else ''+'') @ str_nat (nat \<bar>py_round x\<bar>)"

section \<open>Instants and calendar days\<close>

text \<open>
  \<^verbatim>\<open>parse_dt\<close> returns a timezone-aware \<^verbatim>\<open>datetime\<close> in UTC or \<^verbatim>\<open>None\<close>. Such a datetime
  is modelled by its number of microseconds since 1970-01-01T00:00:00Z, the resolution of
  Python's datetimes. A \<^verbatim>\<open>timedelta\<close> is a number of microseconds.
\<close>

type_synonym instant = int

definition usec_per_day :: int where
  "usec_per_day = 86400 * 1000000"

definition timedelta_days :: "int \<Rightarrow> int" where
  "timedelta_days n = n * usec_per_day"

definition total_seconds :: "int \<Rightarrow> rat" where
  "total_seconds d = of_int d / 1000000"

text \<open>
  \<^verbatim>\<open>d.strftime("%Y-%m-%d")\<close> on a UTC datetime: the civil date of the day the instant falls
  in (proleptic Gregorian calendar), the year on four digits.
\<close>

definition pad2 :: "nat \<Rightarrow> string" where
  "pad2 n = [digit_char (n div 10), digit_char (n mod 10)]"

definition pad4 :: "nat \<Rightarrow> string" where
  "pad4 n = (if n < 1000 then pad2 (n div 100) @ pad2 (n mod 100) else str_nat n)"

definition civil_from_days :: "int \<Rightarrow> int \<times> int \<times> int" where
  "civil_from_days days =
     (let z = days + 719468;
          era = z div 146097;
          doe = z mod 146097;
          yoe = (doe - doe div 1460 + doe div 36524 - doe div 146096) div 365;
          doy = doe - (365 * yoe + yoe div 4 - yoe div 100);
          mp = (5 * doy + 2) div 153;
          d = doy - (153 * mp + 2) div 5 + 1;
          m = (if mp < 10 then mp + 3 else mp - 9);
          y = yoe + era * 400 + (if m \<le> 2 then 1 else 0)
      in (y, m, d))"

definition strftime_ymd :: "instant \<Rightarrow> string" where
  "strftime_ymd t =
     (case civil_from_days (t div usec_per_day) of
        (y, m, d) \<Rightarrow> pad4 (nat y) @ ''-'' @ pad2 (nat m) @ ''-'' @ pad2 (nat d))"

section \<open>Product records\<close>

text \<open>
  A timestamp field of a normalized record, as \<^verbatim>\<open>parse_dt\<close> sees it: absent
  (\<^verbatim>\<open>None\<close> or the empty string), a text that \<^verbatim>\<open>datetime.fromisoformat\<close> rejects, or a
  text that parses, given by the UTC instant it denotes.
\<close>

datatype stamp = Absent | Unparsable | Parsed instant

text \<open>
  The fields of a record that \<^verbatim>\<open>analyze_products\<close> computes statistics from. The price
  fields hold a float or \<^verbatim>\<open>None\<close>; \<^verbatim>\<open>variants_count\<close> holds what \<^verbatim>\<open>int(...)\<close> makes of the
  field, \<^verbatim>\<open>None\<close> where the conversion raises.
\<close>

record product =
  created_at :: stamp
  published_at :: stamp
  updated_at :: stamp
  price_min :: "rat option"
  compare_at_min :: "rat option"
  available :: bool
  variants_count :: "int option"

definition parse_dt :: "stamp \<Rightarrow> instant option" where
  "parse_dt s = (case s of Absent \<Rightarrow> None | Unparsable \<Rightarrow> None | Parsed t \<Rightarrow> Some t)"

text \<open>The raw field is truthy: \<^verbatim>\<open>p.get("created_at")\<close> used as a condition.\<close>

definition truthy :: "stamp \<Rightarrow> bool" where
  "truthy s = (s \<noteq> Absent)"

text \<open>\<^verbatim>\<open>a or b\<close> on optional datetimes: a datetime is always truthy.\<close>

definition or_else :: "'a option \<Rightarrow> 'a option \<Rightarrow> 'a option" where
  "or_else a b = (case a of Some x \<Rightarrow> Some x | None \<Rightarrow> b)"

definition created_dt :: "product \<Rightarrow> instant option" where
  "created_dt p = or_else (parse_dt (created_at p)) (parse_dt (published_at p))"

definition updated_dt :: "product \<Rightarrow> instant option" where
  "updated_dt p = parse_dt (updated_at p)"

section \<open>Medians and counters\<close>

text \<open>
  \<^verbatim>\<open>statistics.median\<close> raises on an empty list; every call of the source is guarded by a
  test that the list is not empty, and the guards are kept in the model.
\<close>

definition median :: "rat list \<Rightarrow> rat" where
  "median xs =
     (let s = sort xs; n = length s
      in if odd n then s ! (n div 2) else (s ! (n div 2 - 1) + s ! (n div 2)) / 2)"

definition somes :: "'a option list \<Rightarrow> 'a list" where
  "somes xs = concat (map (\<lambda>x. case x of None \<Rightarrow> [] | Some v \<Rightarrow> [v]) xs)"

definition median_or_none :: "rat option list \<Rightarrow> rat option" where
  "median_or_none xs =
     (let ys = somes xs in if ys \<noteq> [] then Some (round_nd 2 (median ys)) else None)"

text \<open>
  A \<^verbatim>\<open>Counter\<close> built from a list: its keys in the order of their first occurrence, each
  with the number of its occurrences. \<^verbatim>\<open>most_common(1)[0]\<close> is the first entry among those
  with the greatest count.
\<close>

definition first_seen :: "'a list \<Rightarrow> 'a list" where
  "first_seen xs = rev (remdups (rev xs))"

definition counter :: "'a list \<Rightarrow> ('a \<times> nat) list" where
  "counter xs = map (\<lambda>k. (k, count_list xs k)) (first_seen xs)"

fun first_max :: "('a \<times> nat) \<Rightarrow> ('a \<times> nat) list \<Rightarrow> ('a \<times> nat)" where
  "first_max best [] = best"
| "first_max best (kv # rest) = first_max (if snd best < snd kv then kv else best) rest"

definition most_common1 :: "('a \<times> nat) list \<Rightarrow> ('a \<times> nat) option" where
  "most_common1 c = (case c of [] \<Rightarrow> None | kv # rest \<Rightarrow> Some (first_max kv rest))"

section \<open>Bulk-update spike detection\<close>

text \<open>
  \<^verbatim>\<open>detect_bulk_update_spike(update_datetimes, bucket="day")\<close>, which returns
  \<^verbatim>\<open>(is_bulk, dominant_bucket_label, dominant_pct)\<close>. The source calls it with the day
  bucket only.
\<close>

definition bucket_day :: "instant \<Rightarrow> string" where
  "bucket_day d = strftime_ymd d"

definition detect_bulk_update_spike :: "instant list \<Rightarrow> bool \<times> string option \<times> rat" where
  "detect_bulk_update_spike update_datetimes =
     (case most_common1 (counter (map bucket_day update_datetimes)) of
        None \<Rightarrow> (False, None, 0)
      | Some (top_bucket, top_count) \<Rightarrow>
          (let dominant_pct =
                 round_nd 1 (100 * of_nat top_count / of_nat (length update_datetimes));
               is_bulk = (70 \<le> dominant_pct \<and> 30 \<le> length update_datetimes)
           in (is_bulk, Some top_bucket, dominant_pct)))"

section \<open>New versus old products, update activity\<close>

text \<open>
  \<^verbatim>\<open>compute_new_vs_old_and_updates\<close>. Its local helper \<^verbatim>\<open>meaningful_update_dt\<close> treats an
  update close to the creation as noise.
\<close>

definition GRACE_SECONDS :: int where
  "GRACE_SECONDS = 6 * 3600"

definition meaningful_update_dt :: "product \<Rightarrow> instant option" where
  "meaningful_update_dt p =
     (case updated_dt p of
        None \<Rightarrow> None
      | Some ud \<Rightarrow>
          (case created_dt p of
             Some cd \<Rightarrow>
               if \<bar>total_seconds (ud - cd)\<bar> \<le> of_int GRACE_SECONDS then None else Some ud
           | None \<Rightarrow> Some ud))"

text \<open>The list \<^verbatim>\<open>meaningful_updates\<close>: one entry for each product that has one.\<close>

definition meaningful_updates :: "product list \<Rightarrow> instant list" where
  "meaningful_updates products = somes (map meaningful_update_dt products)"

text \<open>
  The pair \<^verbatim>\<open>(filtered_updates, bulk_filter_applied)\<close> that the source computes from the
  meaningful updates and the outcome of the detection. The condition
  \<^verbatim>\<open>is_bulk and top_bucket\<close> asks for a label that is a non-empty string.
\<close>

definition organic_updates :: "instant list \<Rightarrow> instant list \<times> bool" where
  "organic_updates mu =
     (case detect_bulk_update_spike mu of
        (is_bulk, top_bucket, dominant_pct) \<Rightarrow>
          if is_bulk \<and> (case top_bucket of None \<Rightarrow> False | Some b \<Rightarrow> b \<noteq> []) then
            (let candidate = filter (\<lambda>d. Some (bucket_day d) \<noteq> top_bucket) mu
             in if 10 \<le> length candidate then (candidate, True) else (mu, False))
          else (mu, False))"

definition count_since_cutoff :: "instant \<Rightarrow> instant list \<Rightarrow> nat" where
  "count_since_cutoff cutoff ds = length (filter (\<lambda>d. cutoff \<le> d) ds)"

record new_vs_old_pack =
  created_30 :: nat
  created_90 :: nat
  created_180 :: nat
  created_30_pct :: rat
  created_90_pct :: rat
  created_180_pct :: rat
  catalog_median_price :: "rat option"
  new_90_median_price :: "rat option"

record update_pack =
  updated_30 :: nat
  updated_90 :: nat
  updated_180 :: nat
  updated_30_pct :: rat
  updated_90_pct :: rat
  updated_180_pct :: rat
  updated_30_raw :: nat
  updated_90_raw :: nat
  updated_180_raw :: nat
  updated_30_raw_pct :: rat
  updated_90_raw_pct :: rat
  updated_180_raw_pct :: rat
  meaningful_update_count :: nat
  organic_update_count :: nat
  bulk_update_flag :: bool
  bulk_update_bucket :: "string option"
  bulk_update_dominant_pct :: rat
  bulk_filter_applied :: bool

text \<open>
  The products created since a cutoff, the list \<^verbatim>\<open>created_groups[k]\<close> of the source.
\<close>

definition created_group :: "instant \<Rightarrow> product list \<Rightarrow> product list" where
  "created_group cutoff products =
     filter (\<lambda>p. case created_dt p of None \<Rightarrow> False | Some cd \<Rightarrow> cutoff \<le> cd) products"

text \<open>
  The function reads the clock once, into \<^verbatim>\<open>now\<close>, which is a parameter here. For an
  empty list it returns two empty dictionaries, modelled by \<open>None\<close>.
\<close>

definition compute_new_vs_old_and_updates ::
    "instant \<Rightarrow> product list \<Rightarrow> (new_vs_old_pack \<times> update_pack) option" where
  "compute_new_vs_old_and_updates now products =
     (let total = length products in
      if total = 0 then None
      else
        let w30 = now - timedelta_days 30;
            w90 = now - timedelta_days 90;
            w180 = now - timedelta_days 180;
            g30 = created_group w30 products;
            g90 = created_group w90 products;
            g180 = created_group w180 products;
            mu = meaningful_updates products;
            det = detect_bulk_update_spike mu;
            org = organic_updates mu;
            filtered_updates = fst org
        in Some
          (\<lparr> created_30 = length g30, created_90 = length g90, created_180 = length g180,
              created_30_pct = pct (length g30) total,
              created_90_pct = pct (length g90) total,
              created_180_pct = pct (length g180) total,
              catalog_median_price = median_or_none (map (\<lambda>p. safe_float (price_min p)) products),
              new_90_median_price = median_or_none (map (\<lambda>p. safe_float (price_min p)) g90) \<rparr>,
           \<lparr> updated_30 = count_since_cutoff w30 filtered_updates,
              updated_90 = count_since_cutoff w90 filtered_updates,
              updated_180 = count_since_cutoff w180 filtered_updates,
              updated_30_pct = pct (count_since_cutoff w30 filtered_updates) total,
              updated_90_pct = pct (count_since_cutoff w90 filtered_updates) total,
              updated_180_pct = pct (count_since_cutoff w180 filtered_updates) total,
              updated_30_raw = count_since_cutoff w30 mu,
              updated_90_raw = count_since_cutoff w90 mu,
              updated_180_raw = count_since_cutoff w180 mu,
              updated_30_raw_pct = pct (count_since_cutoff w30 mu) total,
              updated_90_raw_pct = pct (count_since_cutoff w90 mu) total,
              updated_180_raw_pct = pct (count_since_cutoff w180 mu) total,
              meaningful_update_count = length mu,
              organic_update_count = length filtered_updates,
              bulk_update_flag = fst det,
              bulk_update_bucket = fst (snd det),
              bulk_update_dominant_pct = snd (snd det),
              bulk_filter_applied = snd org \<rparr>))"

text \<open>The number of updates of a list that fall on the calendar day with the label \<open>k\<close>.\<close>

definition day_count :: "instant list \<Rightarrow> string \<Rightarrow> nat" where
  "day_count ds k = length (filter (\<lambda>d. bucket_day d = k) ds)"

section \<open>Sorting by a datetime key\<close>

text \<open>
  The keys \<^verbatim>\<open>newest_dt\<close> and \<^verbatim>\<open>updated_dt\<close> of \<^verbatim>\<open>analyze_products\<close> are the parsed
  datetime, which is aware of its timezone, or \<^verbatim>\<open>datetime.min\<close>, which is naive. Python
  compares two aware datetimes by their instants and two equal naive ones as equal; the
  comparison of an aware with a naive datetime raises \<^verbatim>\<open>TypeError\<close>. The second key is
  named \<open>updated_key\<close> here, apart from the \<^verbatim>\<open>updated_dt\<close> of
  \<^verbatim>\<open>compute_new_vs_old_and_updates\<close>.
\<close>

datatype error = TypeError

datatype pydt = Aware instant | NaiveMin

fun dt_lt :: "pydt \<Rightarrow> pydt \<Rightarrow> error + bool" where
  "dt_lt (Aware a) (Aware b) = Inr (a < b)"
| "dt_lt NaiveMin NaiveMin = Inr False"
| "dt_lt (Aware a) NaiveMin = Inl TypeError"
| "dt_lt NaiveMin (Aware b) = Inl TypeError"

text \<open>
  \<^verbatim>\<open>sorted(products, key=key, reverse=True)\<close>: the keys descending, records of equal keys
  in their original order. The sort compares keys with \<^verbatim>\<open><\<close> only, and a comparison
  that raises ends it. The model inserts each record, from the last to the first, into
  the sorted rest. A sort by comparisons must compare some aware key with some naive key
  when the list holds both, so whether the call raises does not depend on the algorithm.
\<close>

fun insert_desc :: "('a \<Rightarrow> pydt) \<Rightarrow> 'a \<Rightarrow> 'a list \<Rightarrow> error + 'a list" where
  "insert_desc key x [] = Inr [x]"
| "insert_desc key x (y # ys) =
     (case dt_lt (key x) (key y) of
        Inl e \<Rightarrow> Inl e
      | Inr b \<Rightarrow>
          if b then (case insert_desc key x ys of Inl e \<Rightarrow> Inl e | Inr zs \<Rightarrow> Inr (y # zs))
          else Inr (x # y # ys))"

fun sorted_desc :: "('a \<Rightarrow> pydt) \<Rightarrow> 'a list \<Rightarrow> error + 'a list" where
  "sorted_desc key [] = Inr []"
| "sorted_desc key (x # xs) =
     (case sorted_desc key xs of Inl e \<Rightarrow> Inl e | Inr ys \<Rightarrow> insert_desc key x ys)"

definition newest_dt :: "product \<Rightarrow> pydt" where
  "newest_dt p = (case created_dt p of Some t \<Rightarrow> Aware t | None \<Rightarrow> NaiveMin)"

definition updated_key :: "product \<Rightarrow> pydt" where
  "updated_key p = (case parse_dt (updated_at p) of Some t \<Rightarrow> Aware t | None \<Rightarrow> NaiveMin)"

section \<open>Price bands\<close>

definition price_bucket :: "rat \<Rightarrow> string" where
  "price_bucket price =
     (if price < 25 then ''<$25''
      else if price < 50 then ''$25'' @ en_dash @ ''$49''
      else if price < 100 then ''$50'' @ en_dash @ ''$99''
      else if price < 200 then ''$100'' @ en_dash @ ''$199''
      else if price < 300 then ''$200'' @ en_dash @ ''$299''
      else if price < 500 then ''$300'' @ en_dash @ ''$499''
      else ''$500+'')"

section \<open>Launch timeline\<close>

text \<open>
  \<^verbatim>\<open>analyze_launch_timeline\<close> returns an empty dictionary for an empty list, a dictionary
  with the single key \<^verbatim>\<open>error\<close> when no record has a creation instant, and the analysis
  otherwise. Of the analysis the model keeps the window counts, the velocities, the
  acceleration, the price positioning and the dates and ages of the oldest and the newest
  record; the monthly distribution, the vendors and the titles are left out.
\<close>

record launch_data =
  count_7d :: nat
  pct_7d :: rat
  count_30d :: nat
  pct_30d :: rat
  count_90d :: nat
  pct_90d :: rat
  count_180d :: nat
  pct_180d :: rat
  count_1yr :: nat
  pct_1yr :: rat
  velocity_last_30d :: rat
  velocity_last_90d :: rat
  velocity_last_1yr :: rat
  accel_30d_vs_90d_pct :: "rat option"
  trend :: string
  catalog_median :: "rat option"
  new_30d_median :: "rat option"
  new_90d_median :: "rat option"
  delta_30d_pct :: "rat option"
  delta_90d_pct :: "rat option"
  strategy :: string
  oldest_created :: string
  oldest_age_days :: int
  newest_created :: string
  newest_age_days :: int

datatype launch = LaunchEmpty | LaunchError | Launch launch_data

definition calc_velocity :: "nat \<Rightarrow> nat \<Rightarrow> rat" where
  "calc_velocity days count =
     (if days = 0 then 0
      else let months = of_nat days / 30
           in if 0 < months then round_nd 1 (of_nat count / months) else 0)"

text \<open>The local \<^verbatim>\<open>delta_pct\<close> of \<^verbatim>\<open>analyze_launch_timeline\<close>, which rounds to one decimal.\<close>

definition launch_delta_pct :: "rat option \<Rightarrow> rat option \<Rightarrow> rat option" where
  "launch_delta_pct new_val catalog_val =
     (case new_val of
        None \<Rightarrow> None
      | Some n \<Rightarrow>
          (case catalog_val of
             None \<Rightarrow> None
           | Some c \<Rightarrow> if c = 0 then None else Some (round_nd 1 ((n - c) / c * 100))))"

text \<open>The records with a creation instant, each with the instant and its price.\<close>

definition dated_products :: "product list \<Rightarrow> (instant \<times> rat option) list" where
  "dated_products products =
     concat (map (\<lambda>p. case created_dt p of
                         None \<Rightarrow> []
                       | Some dt \<Rightarrow> [(dt, safe_float (price_min p))]) products)"

definition launch_group :: "instant \<Rightarrow> (instant \<times> rat option) list \<Rightarrow> (instant \<times> rat option) list" where
  "launch_group cutoff dps = filter (\<lambda>dp. cutoff \<le> fst dp) dps"

text \<open>The prices of a group that are present and positive.\<close>

definition positive_prices :: "rat option list \<Rightarrow> rat list" where
  "positive_prices xs = filter (\<lambda>x. 0 < x) (somes xs)"

definition rounded_median :: "rat list \<Rightarrow> rat option" where
  "rounded_median xs = (if xs \<noteq> [] then Some (round_nd 2 (median xs)) else None)"

definition analyze_launch_timeline :: "instant \<Rightarrow> product list \<Rightarrow> launch" where
  "analyze_launch_timeline now products =
     (let total = length products in
      if total = 0 then LaunchEmpty
      else
        let dps = dated_products products in
        if dps = [] then LaunchError
        else
          let g7 = launch_group (now - timedelta_days 7) dps;
              g30 = launch_group (now - timedelta_days 30) dps;
              g90 = launch_group (now - timedelta_days 90) dps;
              g180 = launch_group (now - timedelta_days 180) dps;
              g1yr = launch_group (now - timedelta_days 365) dps;
              v30 = calc_velocity 30 (length g30);
              v90 = calc_velocity 90 (length g90);
              v1yr = calc_velocity 365 (length g1yr);
              accel = (if 0 < v90 then Some (round_nd 1 ((v30 - v90) / v90 * 100)) else None);
              cat_median = rounded_median (positive_prices (map (\<lambda>p. safe_float (price_min p)) products));
              m30 = rounded_median (positive_prices (map snd g30));
              m90 = rounded_median (positive_prices (map snd g90));
              d30 = launch_delta_pct m30 cat_median;
              d90 = launch_delta_pct m90 cat_median;
              by_date = sort (map fst dps)
          in Launch
            \<lparr> count_7d = length g7, pct_7d = pct (length g7) total,
              count_30d = length g30, pct_30d = pct (length g30) total,
              count_90d = length g90, pct_90d = pct (length g90) total,
              count_180d = length g180, pct_180d = pct (length g180) total,
              count_1yr = length g1yr, pct_1yr = pct (length g1yr) total,
              velocity_last_30d = v30, velocity_last_90d = v90, velocity_last_1yr = v1yr,
              accel_30d_vs_90d_pct = accel,
              trend = (case accel of
                         None \<Rightarrow> ''Steady''
                       | Some a \<Rightarrow> if 15 < a then ''Accelerating''
                                  else if a < - 15 then ''Decelerating'' else ''Steady''),
              catalog_median = cat_median, new_30d_median = m30, new_90d_median = m90,
              delta_30d_pct = d30, delta_90d_pct = d90,
              strategy = (case d90 of
                            None \<Rightarrow> ''Consistent positioning''
                          | Some d \<Rightarrow> if 15 < d then ''Premium expansion''
                                     else if d < - 15 then ''Budget expansion''
                                     else ''Consistent positioning''),
              oldest_created = strftime_ymd (hd by_date),
              oldest_age_days = (now - hd by_date) div usec_per_day,
              newest_created = strftime_ymd (last by_date),
              newest_age_days = (now - last by_date) div usec_per_day \<rparr>)"

text \<open>A piece of a list that is present under a condition.\<close>

definition opt :: "bool \<Rightarrow> 'a \<Rightarrow> 'a list" where
  "opt b x = (if b then [x] else [])"

text \<open>The sentences of \<^verbatim>\<open>generate_launch_insights\<close>, each given the text of its numbers.\<close>

definition velocity_insight :: "rat \<Rightarrow> string \<Rightarrow> string" where
  "velocity_insight v30 shown =
     (if 10 \<le> v30 then
        ''High launch velocity: '' @ shown @ '' products/month recently, indicating aggressive expansion.''
      else if 3 \<le> v30 then
        ''Moderate launch velocity: '' @ shown @ '' products/month, showing steady growth.''
      else
        ''Low launch velocity: '' @ shown @ '' products/month, suggesting mature/stable catalog.'')"

definition accelerating_insight :: "rat \<Rightarrow> string" where
  "accelerating_insight a =
     ''Launch rate accelerating ('' @ fmt_plus_0f a @ ''% vs 90d avg)'' @ em_dash
       @ ''they're ramping up.''"

definition decelerating_insight :: "rat \<Rightarrow> string" where
  "decelerating_insight a =
     ''Launch rate decelerating ('' @ fmt_plus_0f a @ ''% vs 90d avg)'' @ em_dash
       @ ''expansion cooling off.''"

definition strategy_insight :: "string \<Rightarrow> rat \<Rightarrow> rat \<Rightarrow> rat \<Rightarrow> string" where
  "strategy_insight strat new_median cat_median delta =
     strat @ '': New products (90d) at $'' @ str_float new_median @ '' vs catalog $''
       @ str_float cat_median @ '' ('' @ fmt_plus_0f delta @ ''% delta).''"

definition recency_insight :: "rat \<Rightarrow> nat \<Rightarrow> string" where
  "recency_insight p30 c30 =
     str_float p30 @ ''% of catalog ('' @ str_nat c30 @ '' products) launched in last 30 days''
       @ em_dash @ ''very fresh inventory.''"

text \<open>A float used as a condition: present and not zero.\<close>

definition truthy_float :: "rat option \<Rightarrow> bool" where
  "truthy_float x = (case x of None \<Rightarrow> False | Some v \<Rightarrow> v \<noteq> 0)"

text \<open>
  \<^verbatim>\<open>generate_launch_insights\<close>. On a dictionary without the sections, every
  \<^verbatim>\<open>get\<close> falls back to its default: the velocity is the int 0, shown as \<^verbatim>\<open>0\<close>, and the
  other sentences are left out.
\<close>

definition generate_launch_insights :: "launch \<Rightarrow> string list" where
  "generate_launch_insights analysis =
     (case analysis of
        Launch d \<Rightarrow>
          [velocity_insight (velocity_last_30d d) (str_float (velocity_last_30d d))]
          @ (if trend d = ''Accelerating'' \<and> truthy_float (accel_30d_vs_90d_pct d)
             then [accelerating_insight (the (accel_30d_vs_90d_pct d))]
             else if trend d = ''Decelerating'' \<and> truthy_float (accel_30d_vs_90d_pct d)
             then [decelerating_insight (the (accel_30d_vs_90d_pct d))]
             else [])
          @ (if strategy d \<noteq> [] \<and> delta_90d_pct d \<noteq> None
                \<and> truthy_float (new_90d_median d) \<and> truthy_float (catalog_median d)
             then [strategy_insight (strategy d) (the (new_90d_median d))
                     (the (catalog_median d)) (the (delta_90d_pct d))]
             else [])
          @ opt (5 \<le> pct_30d d) (recency_insight (pct_30d d) (count_30d d))
      | _ \<Rightarrow> [velocity_insight 0 ''0''])"

section \<open>Confidence notes on coverage\<close>

definition count_where :: "('a \<Rightarrow> bool) \<Rightarrow> 'a list \<Rightarrow> nat" where
  "count_where P xs = length (filter P xs)"

definition compute_confidence_notes :: "product list \<Rightarrow> string list" where
  "compute_confidence_notes products =
     (let total = length products in
      if total = 0 then
        [''No products were returned from /products.json. This store may block Shopify product JSON access or is not Shopify.'']
      else
        let missing_created =
              count_where (\<lambda>p. \<not> (truthy (created_at p) \<or> truthy (published_at p))) products;
            missing_updated = count_where (\<lambda>p. \<not> truthy (updated_at p)) products;
            missing_prices = count_where (\<lambda>p. safe_float (price_min p) = None) products;
            missing_compare = count_where (\<lambda>p. safe_float (compare_at_min p) = None) products
        in [''This report is based only on the public Shopify product catalog endpoint (/products.json). It does not include traffic, conversion rate, ads, or checkout data.'',
            ''Date coverage: '' @ str_float (pct (total - missing_created) total)
              @ ''% of products include created/published dates; ''
              @ str_float (pct (total - missing_updated) total) @ ''% include updated_at.'',
            ''Pricing coverage: '' @ str_float (pct (total - missing_prices) total)
              @ ''% of products include a usable price.'',
            ''Discount coverage: '' @ str_float (pct (total - missing_compare) total)
              @ ''% include compare-at pricing fields (discounts only count when compare_at > price).'',
            ''If a store returns HTML/404 for /products.json, it may be non-Shopify, headless Shopify with restrictions, or intentionally blocking the endpoint.''])"

section \<open>The insights report\<close>

text \<open>
  \<^verbatim>\<open>analyze_products\<close> reads the clock several times. Each reading that enters a modelled
  section is a parameter: the one of \<^verbatim>\<open>compute_new_vs_old_and_updates\<close>, the three of
  \<^verbatim>\<open>count_since\<close> (through \<^verbatim>\<open>cutoff_days\<close>) and the one of \<^verbatim>\<open>analyze_launch_timeline\<close>.
\<close>

record clock =
  clock_updates :: instant
  clock_c30 :: instant
  clock_c90 :: instant
  clock_c180 :: instant
  clock_launch :: instant

text \<open>
  The sections of the report that the model keeps: the takeaways, the two halves of
  \<^verbatim>\<open>new_vs_old\<close>, \<^verbatim>\<open>comparisons.new_vs_old\<close>, \<^verbatim>\<open>comparisons.update_activity\<close>, the
  confidence notes, the launch timeline, the catalog counts (without the vendors) and the
  discounted count and share of the \<^verbatim>\<open>discounts\<close> section.
\<close>

record window_counts =
  d30_count :: nat
  d30_pct :: rat
  d90_count :: nat
  d90_pct :: rat
  d180_count :: nat
  d180_pct :: rat
  missing :: nat

record update_activity_section =
  ua_updated_30 :: nat
  ua_updated_30_pct :: rat
  ua_updated_90 :: nat
  ua_updated_90_pct :: rat
  ua_bulk_update_flag :: bool
  ua_bulk_update_bucket :: "string option"
  ua_bulk_update_dominant_pct :: rat
  ua_bulk_filter_applied :: bool
  ua_updated_30_raw :: nat
  ua_updated_30_raw_pct :: rat
  ua_updated_90_raw :: nat
  ua_updated_90_raw_pct :: rat

record new_vs_old_section =
  nvo_created_30 :: nat
  nvo_created_30_pct :: rat
  nvo_created_90 :: nat
  nvo_created_90_pct :: rat
  nvo_created_180 :: nat
  nvo_created_180_pct :: rat
  nvo_new_90_median_price :: "rat option"
  nvo_catalog_median_price :: "rat option"

record catalog_section =
  total_products :: nat
  in_stock_count :: nat
  in_stock_pct :: rat
  out_of_stock_count :: nat
  out_of_stock_pct :: rat

record report =
  takeaways :: "string list"
  created :: window_counts
  updated :: window_counts
  comparisons_new_vs_old :: new_vs_old_section
  comparisons_update_activity :: update_activity_section
  confidence_notes :: "string list"
  launch_timeline :: launch
  catalog :: catalog_section
  discounted_count :: nat
  discounted_pct :: rat

text \<open>The local \<^verbatim>\<open>count_since\<close>, given the reading of the clock.\<close>

definition count_since :: "instant \<Rightarrow> instant option list \<Rightarrow> int \<Rightarrow> nat" where
  "count_since now dts days =
     (let cut = now - timedelta_days days
      in count_where (\<lambda>d. case d of None \<Rightarrow> False | Some t \<Rightarrow> cut \<le> t) dts)"

definition prices_all :: "product list \<Rightarrow> rat option list" where
  "prices_all products = map (\<lambda>p. safe_float (price_min p)) products"

definition prices_pos :: "product list \<Rightarrow> rat list" where
  "prices_pos products = positive_prices (prices_all products)"

definition zero_price_count :: "product list \<Rightarrow> nat" where
  "zero_price_count products = count_where (\<lambda>x. x = Some 0) (prices_all products)"

definition priced_count :: "product list \<Rightarrow> nat" where
  "priced_count products = length (somes (prices_all products))"

definition bucket_counts :: "product list \<Rightarrow> (string \<times> nat) list" where
  "bucket_counts products = counter (map price_bucket (prices_pos products))"

text \<open>The list \<^verbatim>\<open>discounts\<close>: the discount of each record with a positive price that has one.\<close>

definition discounts :: "product list \<Rightarrow> rat list" where
  "discounts products =
     concat (map (\<lambda>p. case safe_float (price_min p) of
                         None \<Rightarrow> []
                       | Some pr \<Rightarrow>
                           if pr \<le> 0 then []
                           else (case compute_discount_pct (Some pr) (safe_float (compare_at_min p)) of
                                   None \<Rightarrow> []
                                 | Some d \<Rightarrow> [d])) products)"

text \<open>The list \<^verbatim>\<open>discounted_prices\<close>: the price of each priced record that has a discount.\<close>

definition discounted_prices :: "product list \<Rightarrow> rat list" where
  "discounted_prices products =
     concat (map (\<lambda>p. case safe_float (price_min p) of
                         None \<Rightarrow> []
                       | Some pr \<Rightarrow>
                           (case compute_discount_pct (Some pr) (safe_float (compare_at_min p)) of
                              None \<Rightarrow> []
                            | Some d \<Rightarrow> [pr])) products)"

definition avg_variants :: "product list \<Rightarrow> rat option" where
  "avg_variants products =
     (let vcs = somes (map variants_count products)
      in if vcs \<noteq> [] then Some (round_nd 2 (of_int (sum_list vcs) / of_nat (length vcs)))
         else None)"

text \<open>The sentences of the takeaways.\<close>

definition stock_takeaway :: "rat \<Rightarrow> string" where
  "stock_takeaway p =
     str_float p @ ''% of products are currently in stock, which suggests ''
       @ (if 80 \<le> p then ''stable inventory'' else ''potential stock gaps to exploit'') @ ''.''"

definition discount_takeaway :: "rat \<Rightarrow> string" where
  "discount_takeaway p =
     str_float p @ ''% of products show valid discounts (compare-at > price), indicating ''
       @ (if 30 \<le> p then ''aggressive promotion'' else ''limited discounting'') @ ''.''"

definition pricing_takeaway :: "rat \<Rightarrow> rat \<Rightarrow> rat \<Rightarrow> string" where
  "pricing_takeaway lo hi med =
     ''Pricing spans $'' @ fmt_2f lo @ en_dash @ ''$'' @ fmt_2f hi @ '' with a median of $''
       @ fmt_2f med @ ''. Position your core offer near the median to compete directly.''"

definition band_takeaway :: "string \<Rightarrow> rat \<Rightarrow> string" where
  "band_takeaway top_bucket top_bucket_pct =
     ''The dominant price band is '' @ top_bucket @ '' ('' @ str_float top_bucket_pct
       @ ''% of products), showing where they primarily compete.''"

definition newest_takeaway :: "rat \<Rightarrow> rat \<Rightarrow> string" where
  "newest_takeaway newest_med price_median =
     (if price_median < newest_med then
        ''Newest products skew above the store median price, suggesting a premium expansion strategy.''
      else if newest_med < price_median then
        ''Newest products skew below the store median price, suggesting a push toward cheaper volume offers.''
      else
        ''Newest products price near the median, suggesting steady positioning rather than a strategic shift.'')"

definition variants_takeaway :: "rat \<Rightarrow> string" where
  "variants_takeaway av =
     (if av \<le> 13 / 10 then
        ''Most products have few variants, suggesting a simpler catalog (often easier ops) and fewer customization options.''
      else
        ''Products have multiple variants on average, suggesting upsell/option strategy (sizes, bundles, tiers).'')"

text \<open>
  The list \<^verbatim>\<open>takeaways\<close>, given the launch analysis and the ten newest records: the launch
  insights, then the sentences that \<^verbatim>\<open>analyze_products\<close> appends for a non-empty catalog.
\<close>

definition takeaways_of :: "launch \<Rightarrow> product list \<Rightarrow> product list \<Rightarrow> string list" where
  "takeaways_of launch newest products =
     (let total = length products;
          pos = prices_pos products;
          newest_prices = somes (map (\<lambda>p. safe_float (price_min p)) newest)
      in (if launch \<noteq> LaunchEmpty then generate_launch_insights launch else [])
         @ (if total \<noteq> 0 then
              [stock_takeaway (pct (length (filter available products)) total),
               discount_takeaway (pct (length (discounts products)) total)]
              @ (if pos \<noteq> [] then [pricing_takeaway (Min (set pos)) (Max (set pos)) (median pos)]
                 else [])
              @ (case most_common1 (bucket_counts products) of
                   None \<Rightarrow> []
                 | Some (top_bucket, top_bucket_count) \<Rightarrow>
                     [band_takeaway top_bucket (pct top_bucket_count total)])
              @ (if pos \<noteq> [] \<and> newest_prices \<noteq> []
                 then [newest_takeaway (median newest_prices) (median pos)]
                 else [])
              @ (case avg_variants products of
                   None \<Rightarrow> []
                 | Some av \<Rightarrow> [variants_takeaway av])
            else []))"

text \<open>The sentences of the confidence notes.\<close>

definition zero_price_note :: "nat \<Rightarrow> string" where
  "zero_price_note n =
     str_nat n @ '' products had a  $0 price and were excluded from price statistics (ofetn samples, placeholders, or gated pricing)''"

definition no_pricing_note :: string where
  "no_pricing_note = ''No usable pricing was found in the public products.json feed''"

definition created_missing_note :: "rat \<Rightarrow> string" where
  "created_missing_note cm =
     ''Created dates missing for '' @ str_float cm
       @ ''% of products; new-product timing may be understated.''"

definition updated_missing_note :: "rat \<Rightarrow> string" where
  "updated_missing_note um =
     ''Updated dates missing for '' @ str_float um
       @ ''% of products; update-activity may be understated.''"

definition low_discount_note :: string where
  "low_discount_note = ''Low discount detection: store may not use compare-at pricing consistently.''"

definition bulk_note :: "rat \<Rightarrow> string option \<Rightarrow> bool \<Rightarrow> string" where
  "bulk_note dominant_pct bucket applied =
     ''Update activity may be inflated: '' @ str_float dominant_pct
       @ ''% of meaningful updates occurred on ''
       @ (case bucket of None \<Rightarrow> ''None'' | Some b \<Rightarrow> b) @ ''. ''
       @ (if applied then ''We filtered that spike to estimate organic edits.''
          else ''Spike detected, but filtering would remove nearly all updates'' @ em_dash
               @ ''showing meaningful updates instead.'')"

text \<open>
  The list \<^verbatim>\<open>confidence_notes\<close>, in the order in which \<^verbatim>\<open>analyze_products\<close> appends to
  it, given the update activity that \<^verbatim>\<open>compute_new_vs_old_and_updates\<close> returned.
\<close>

definition confidence_notes_of :: "update_pack option \<Rightarrow> product list \<Rightarrow> string list" where
  "confidence_notes_of out_updates products =
     (let total = length products;
          created_missing = count_where (\<lambda>p. parse_dt (created_at p) = None) products;
          updated_missing = count_where (\<lambda>p. parse_dt (updated_at p) = None) products;
          cm = pct created_missing total;
          um = pct updated_missing total
      in opt (total \<noteq> 0 \<and> 0 < zero_price_count products)
           (zero_price_note (zero_price_count products))
         @ opt (total \<noteq> 0 \<and> priced_count products = 0) no_pricing_note
         @ opt (total \<noteq> 0 \<and> 20 < cm) (created_missing_note cm)
         @ opt (total \<noteq> 0 \<and> 20 < um) (updated_missing_note um)
         @ opt (total \<noteq> 0 \<and> pct (length (discounted_prices products)) total < 5)
             low_discount_note
         @ (case out_updates of
              None \<Rightarrow> []
            | Some u \<Rightarrow>
                opt (bulk_update_flag u)
                  (bulk_note (bulk_update_dominant_pct u) (bulk_update_bucket u)
                     (bulk_filter_applied u)))
         @ compute_confidence_notes products)"

text \<open>
  The section \<^verbatim>\<open>comparisons.update_activity\<close>: each entry is read from the dictionary of
  \<^verbatim>\<open>compute_new_vs_old_and_updates\<close> with a default for a missing key.
\<close>

definition update_activity_of :: "update_pack option \<Rightarrow> update_activity_section" where
  "update_activity_of out_updates =
     (case out_updates of
        None \<Rightarrow>
          \<lparr> ua_updated_30 = 0, ua_updated_30_pct = 0, ua_updated_90 = 0, ua_updated_90_pct = 0,
            ua_bulk_update_flag = False, ua_bulk_update_bucket = None,
            ua_bulk_update_dominant_pct = 0, ua_bulk_filter_applied = False,
            ua_updated_30_raw = 0, ua_updated_30_raw_pct = 0,
            ua_updated_90_raw = 0, ua_updated_90_raw_pct = 0 \<rparr>
      | Some u \<Rightarrow>
          \<lparr> ua_updated_30 = updated_30 u, ua_updated_30_pct = updated_30_pct u,
            ua_updated_90 = updated_90 u, ua_updated_90_pct = updated_90_pct u,
            ua_bulk_update_flag = bulk_update_flag u,
            ua_bulk_update_bucket = bulk_update_bucket u,
            ua_bulk_update_dominant_pct = bulk_update_dominant_pct u,
            ua_bulk_filter_applied = bulk_filter_applied u,
            ua_updated_30_raw = updated_30_raw u, ua_updated_30_raw_pct = updated_30_raw_pct u,
            ua_updated_90_raw = updated_90_raw u, ua_updated_90_raw_pct = updated_90_raw_pct u \<rparr>)"

definition new_vs_old_of :: "new_vs_old_pack option \<Rightarrow> new_vs_old_section" where
  "new_vs_old_of out_new_old =
     (case out_new_old of
        None \<Rightarrow>
          \<lparr> nvo_created_30 = 0, nvo_created_30_pct = 0, nvo_created_90 = 0,
            nvo_created_90_pct = 0, nvo_created_180 = 0, nvo_created_180_pct = 0,
            nvo_new_90_median_price = None, nvo_catalog_median_price = None \<rparr>
      | Some n \<Rightarrow>
          \<lparr> nvo_created_30 = created_30 n, nvo_created_30_pct = created_30_pct n,
            nvo_created_90 = created_90 n, nvo_created_90_pct = created_90_pct n,
            nvo_created_180 = created_180 n, nvo_created_180_pct = created_180_pct n,
            nvo_new_90_median_price = new_90_median_price n,
            nvo_catalog_median_price = catalog_median_price n \<rparr>)"

text \<open>The report, given the ten newest records that the sort by \<^verbatim>\<open>newest_dt\<close> produced.\<close>

definition assemble :: "clock \<Rightarrow> product list \<Rightarrow> product list \<Rightarrow> report" where
  "assemble clk products newest =
     (let total = length products;
          updates_pack = compute_new_vs_old_and_updates (clock_updates clk) products;
          out_new_old = map_option fst updates_pack;
          out_updates = map_option snd updates_pack;
          created_dts = map (\<lambda>p. parse_dt (created_at p)) products;
          updated_dts = map (\<lambda>p. parse_dt (updated_at p)) products;
          c30 = count_since (clock_c30 clk) created_dts 30;
          c90 = count_since (clock_c90 clk) created_dts 90;
          c180 = count_since (clock_c180 clk) created_dts 180;
          u30 = (case out_updates of None \<Rightarrow> 0 | Some u \<Rightarrow> updated_30 u);
          u90 = (case out_updates of None \<Rightarrow> 0 | Some u \<Rightarrow> updated_90 u);
          u180 = (case out_updates of None \<Rightarrow> 0 | Some u \<Rightarrow> updated_180 u);
          in_stock = filter available products;
          out_stock = filter (\<lambda>p. \<not> available p) products;
          launch = analyze_launch_timeline (clock_launch clk) products
      in \<lparr> takeaways = takeaways_of launch newest products,
           created =
             \<lparr> d30_count = c30, d30_pct = pct c30 total,
               d90_count = c90, d90_pct = pct c90 total,
               d180_count = c180, d180_pct = pct c180 total,
               missing = count_where (\<lambda>d. d = None) created_dts \<rparr>,
           updated =
             \<lparr> d30_count = u30, d30_pct = pct u30 total,
               d90_count = u90, d90_pct = pct u90 total,
               d180_count = u180, d180_pct = pct u180 total,
               missing = count_where (\<lambda>d. d = None) updated_dts \<rparr>,
           comparisons_new_vs_old = new_vs_old_of out_new_old,
           comparisons_update_activity = update_activity_of out_updates,
           confidence_notes = confidence_notes_of out_updates products,
           launch_timeline = launch,
           catalog =
             \<lparr> total_products = total,
               in_stock_count = length in_stock,
               in_stock_pct = pct (length in_stock) total,
               out_of_stock_count = length out_stock,
               out_of_stock_pct = pct (length out_stock) total \<rparr>,
           discounted_count = length (discounts products),
           discounted_pct = pct (length (discounts products)) total \<rparr>)"

text \<open>
  \<^verbatim>\<open>analyze_products\<close>. The two sorts by a datetime key can raise; the first that does ends
  the call. The sorts by price and by discount compare pairs of a boolean and a float,
  which cannot raise.
\<close>

definition analyze_products :: "clock \<Rightarrow> product list \<Rightarrow> error + report" where
  "analyze_products clk products =
     (case sorted_desc newest_dt products of
        Inl e \<Rightarrow> Inl e
      | Inr newest_first \<Rightarrow>
          (case sorted_desc updated_key products of
             Inl e \<Rightarrow> Inl e
           | Inr recently_updated \<Rightarrow> Inr (assemble clk products (take 10 newest_first))))"

section \<open>Sample records\<close>


text \<open>
  A record created and last updated on 2024-01-01T00:00:00Z, a record without any
  timestamp, and a record that has an update instant only.
\<close>

definition dated_record :: product where
  "dated_record = \<lparr> created_at = Parsed 1704067200000000, published_at = Absent,
       updated_at = Parsed 1704067200000000, price_min = Some 50, compare_at_min = Some 100,
       available = True, variants_count = Some 1 \<rparr>"

definition undated_record :: product where
  "undated_record = \<lparr> created_at = Absent, published_at = Absent,
       updated_at = Absent, price_min = Some 20, compare_at_min = None,
       available = False, variants_count = Some 2 \<rparr>"


text \<open>A run in which every reading of the clock gives the same instant.\<close>

definition clock_at :: "instant \<Rightarrow> clock" where
  "clock_at t = \<lparr> clock_updates = t, clock_c30 = t, clock_c90 = t, clock_c180 = t,
       clock_launch = t \<rparr>"





section \<open>Telling sentences apart\<close>

text \<open>
  A text of digits, with a sign or a point, as the number formats produce it.
\<close>

definition numeric :: "string \<Rightarrow> bool" where
  "numeric s = (s \<noteq> [] \<and> set s \<subseteq> set ''-.0123456789'')"

text \<open>
  The kind of a takeaway, read off its first three characters or, for a sentence that
  starts with a number, off the words after the percent sign. The kinds follow the order
  in which the sentences are appended.
\<close>

definition share_kind :: "string \<Rightarrow> nat" where
  "share_kind r =
     (if take 12 r = ''% of catalog'' then 4
      else if take 17 r = ''% of products are'' then 5
      else if take 18 r = ''% of products show'' then 6
      else 0)"

definition takeaway_kind :: "string \<Rightarrow> nat" where
  "takeaway_kind s =
     (let h = take 3 s
      in if h = ''Hig'' \<or> h = ''Mod'' \<or> h = ''Low'' then 1
         else if h = ''Lau'' then 2
         else if h = ''Pre'' \<or> h = ''Bud'' \<or> h = ''Con'' then 3
         else if h = ''Pri'' then 7
         else if h = ''The'' then 8
         else if h = ''New'' then 9
         else if h = ''Mos'' \<or> h = ''Pro'' then 10
         else share_kind (dropWhile (\<lambda>c. c \<noteq> CHR ''%'') s))"

text \<open>
  A list whose kinds increase strictly and lie in a range.
\<close>

definition ranked :: "('a \<Rightarrow> nat) \<Rightarrow> nat \<Rightarrow> nat \<Rightarrow> 'a list \<Rightarrow> bool" where
  "ranked k lo hi xs =
     (lo \<le> hi \<and> sorted_wrt (<) (map k xs) \<and> (\<forall>x \<in> set xs. lo \<le> k x \<and> k x < hi))"

text \<open>The strategy label of a price delta, as the launch analysis chooses it.\<close>

definition strategy_label :: "rat option \<Rightarrow> string" where
  "strategy_label d90 =
     (case d90 of
        None \<Rightarrow> ''Consistent positioning''
      | Some d \<Rightarrow> if 15 < d then ''Premium expansion''
                 else if d < - 15 then ''Budget expansion''
                 else ''Consistent positioning'')"

text \<open>The kind of a confidence note, read off its first characters.\<close>

definition note_kind :: "string \<Rightarrow> nat" where
  "note_kind s =
     (let h = take 4 s
      in if h = ''No u'' then 2
         else if h = ''Crea'' then 3
         else if take 8 s = ''Updated '' then 4
         else if h = ''Low '' then 5
         else if take 8 s = ''Update a'' then 6
         else if h = ''No p'' \<or> h = ''This'' then 7
         else if h = ''Date'' then 8
         else if h = ''Pric'' then 9
         else if h = ''Disc'' then 10
         else if h = ''If a'' then 11
         else 1)"

section \<open>Rounding\<close>

lemma py_round_of_int: "py_round (of_int k) = k"
  by (simp add: py_round_def)

lemma py_round_ge: "of_int k \<le> x \<Longrightarrow> k \<le> py_round x"
proof -
  assume "of_int k \<le> x"
  then have "k \<le> \<lfloor>x\<rfloor>" by (simp add: le_floor_iff)
  then show ?thesis by (auto simp: py_round_def Let_def)
qed

lemma py_round_le: "x \<le> of_int k \<Longrightarrow> py_round x \<le> k"
proof -
  assume h: "x \<le> of_int k"
  then have fk: "\<lfloor>x\<rfloor> \<le> k" by (simp add: floor_le_iff)
  show ?thesis
  proof (cases "\<lfloor>x\<rfloor> = k")
    case True
    then have "of_int k \<le> x" by (metis of_int_floor_le)
    with h have "x = of_int k" by simp
    then show ?thesis by (simp add: py_round_of_int)
  next
    case False
    with fk have "\<lfloor>x\<rfloor> + 1 \<le> k" by simp
    then show ?thesis by (auto simp: py_round_def Let_def)
  qed
qed


section \<open>Counters\<close>

lemma count_list_map: "count_list (map f xs) k = length (filter (\<lambda>x. f x = k) xs)"
  by (induction xs) auto

lemma set_first_seen: "set (first_seen xs) = set xs"
  by (simp add: first_seen_def)

lemma first_max_in: "first_max b c \<in> set (b # c)"
  by (induction c arbitrary: b) auto

lemma first_max_ge_start: "snd b \<le> snd (first_max b c)"
proof (induction c arbitrary: b)
  case Nil then show ?case by simp
next
  case (Cons a c)
  have "snd b \<le> snd (if snd b < snd a then a else b)" by simp
  also have "\<dots> \<le> snd (first_max (if snd b < snd a then a else b) c)" by (rule Cons.IH)
  finally show ?case by simp
qed

lemma first_max_ge_rest: "kv \<in> set c \<Longrightarrow> snd kv \<le> snd (first_max b c)"
proof (induction c arbitrary: b)
  case Nil then show ?case by simp
next
  case (Cons a c)
  show ?case
  proof (cases "kv = a")
    case True
    have "snd a \<le> snd (if snd b < snd a then a else b)" by simp
    also have "\<dots> \<le> snd (first_max (if snd b < snd a then a else b) c)"
      by (rule first_max_ge_start)
    finally show ?thesis using True by simp
  next
    case False
    with Cons.prems have "kv \<in> set c" by simp
    then show ?thesis using Cons.IH by simp
  qed
qed

lemma most_common1_counter:
  assumes "xs \<noteq> []"
  shows "\<exists>k. most_common1 (counter xs) = Some (k, count_list xs k) \<and> k \<in> set xs
             \<and> (\<forall>j. count_list xs j \<le> count_list xs k)"
proof -
  from assms have ne: "counter xs \<noteq> []"
    using set_first_seen [of xs] by (auto simp: counter_def)
  then obtain kv rest where c: "counter xs = kv # rest" by (cases "counter xs") auto
  let ?m = "first_max kv rest"
  have m: "most_common1 (counter xs) = Some ?m" by (simp add: most_common1_def c)
  have "?m \<in> set (counter xs)" using first_max_in [of kv rest] c by simp
  then have mk: "fst ?m \<in> set xs" "snd ?m = count_list xs (fst ?m)"
    by (auto simp: counter_def set_first_seen)
  have "count_list xs j \<le> snd ?m" for j
  proof (cases "j \<in> set xs")
    case True
    then have "(j, count_list xs j) \<in> set (kv # rest)"
      unfolding c [symmetric] by (auto simp: counter_def set_first_seen)
    then show ?thesis
      using first_max_ge_start [of kv rest] first_max_ge_rest [of "(j, count_list xs j)" rest kv]
      by auto
  next
    case False
    then show ?thesis by (simp add: count_list_0_iff)
  qed
  with m mk show ?thesis
    by (metis prod.collapse)
qed

section \<open>The discount percentage of a record\<close>



section \<open>The weighted score\<close>



section \<open>The bulk-update spike\<close>

lemma py_round_ge_700: "(700 \<le> py_round y) = (1399 / 2 \<le> y)"
proof -
  consider "\<lfloor>y\<rfloor> \<le> 698" | "\<lfloor>y\<rfloor> = 699" | "700 \<le> \<lfloor>y\<rfloor>" by linarith
  then show ?thesis
  proof cases
    case 1
    then have "y < 699" by (simp add: floor_le_iff)
    moreover from this have "py_round y \<le> 699" using py_round_le [of y 699] by simp
    ultimately show ?thesis by simp
  next
    case 2
    then have "y = of_int 699 + (y - of_int \<lfloor>y\<rfloor>)" by simp
    with 2 show ?thesis by (auto simp: py_round_def Let_def)
  next
    case 3
    then have "700 \<le> y" by (simp add: le_floor_iff)
    moreover from this have "700 \<le> py_round y" using py_round_ge [of 700 y] by simp
    ultimately show ?thesis by simp
  qed
qed

lemma round1_ge_70: "(70 \<le> round_nd 1 x) = (1399 / 20 \<le> x)"
proof -
  have "(70 \<le> round_nd 1 x) = (700 \<le> py_round (x * 10))"
    by (simp add: round_nd_def le_divide_eq)
  also have "\<dots> = (1399 / 2 \<le> x * 10)" by (rule py_round_ge_700)
  also have "\<dots> = (1399 / 20 \<le> x)" by auto
  finally show ?thesis .
qed

lemma share_ge: "0 < n \<Longrightarrow> (1399 / 20 \<le> 100 * (of_nat c :: rat) / of_nat n) = (1399 * n \<le> 2000 * c)"
proof -
  assume n: "0 < n"
  have "(1399 / 20 \<le> 100 * (of_nat c :: rat) / of_nat n) = (1399 * of_nat n \<le> 2000 * (of_nat c :: rat))"
    using n by (simp add: le_divide_eq) 
  also have "\<dots> = ((of_nat (1399 * n) :: rat) \<le> of_nat (2000 * c))" by simp
  also have "\<dots> = (1399 * n \<le> 2000 * c)" by (rule of_nat_le_iff)
  finally show ?thesis .
qed



lemma day_count_eq: "count_list (map bucket_day ds) k = day_count ds k"
  by (simp add: count_list_map day_count_def)

lemma detect_top:
  assumes "ds \<noteq> []"
  shows "\<exists>k. k \<in> bucket_day ` set ds \<and> (\<forall>j. day_count ds j \<le> day_count ds k)
           \<and> detect_bulk_update_spike ds =
               (70 \<le> round_nd 1 (100 * of_nat (day_count ds k) / of_nat (length ds))
                  \<and> 30 \<le> length ds,
                Some k,
                round_nd 1 (100 * of_nat (day_count ds k) / of_nat (length ds)))"
proof -
  from assms have "map bucket_day ds \<noteq> []" by simp
  from most_common1_counter [OF this] obtain k where
    k: "most_common1 (counter (map bucket_day ds)) = Some (k, count_list (map bucket_day ds) k)"
       "k \<in> set (map bucket_day ds)"
       "\<forall>j. count_list (map bucket_day ds) j \<le> count_list (map bucket_day ds) k"
    by blast
  have "detect_bulk_update_spike ds =
               (70 \<le> round_nd 1 (100 * of_nat (day_count ds k) / of_nat (length ds))
                  \<and> 30 \<le> length ds,
                Some k,
                round_nd 1 (100 * of_nat (day_count ds k) / of_nat (length ds)))"
    by (simp add: detect_bulk_update_spike_def k(1) day_count_eq Let_def)
  with k(2,3) show ?thesis by (auto simp: day_count_eq)
qed

lemma detect_empty: "detect_bulk_update_spike [] = (False, None, 0)"
  by (simp add: detect_bulk_update_spike_def most_common1_def counter_def first_seen_def)

text \<open>
  C4, as the code has it. The detection names the first calendar day (UTC) among those with
  the most updates. Its percentage is the share of that day in all meaningful updates,
  rounded to one decimal. A bulk pattern is flagged exactly when the rounded percentage is
  at least 70.0, that is, when the share is at least 69.95 percent, and there are at least
  30 meaningful updates. With fewer than 30 the flag is false whatever the concentration.
\<close>

theorem detect_bulk_update_spike_flag:
  assumes "detect_bulk_update_spike ds = (is_bulk, label, dp)"
  shows "case label of
           None \<Rightarrow> ds = [] \<and> is_bulk = False \<and> dp = 0
         | Some k \<Rightarrow>
             k \<in> bucket_day ` set ds \<and> (\<forall>j. day_count ds j \<le> day_count ds k)
             \<and> dp = round_nd 1 (100 * of_nat (day_count ds k) / of_nat (length ds))
             \<and> is_bulk = (70 \<le> dp \<and> 30 \<le> length ds)
             \<and> is_bulk = (1399 * length ds \<le> 2000 * day_count ds k \<and> 30 \<le> length ds)"
proof (cases "ds = []")
  case True
  with assms show ?thesis by (simp add: detect_empty)
next
  case False
  from detect_top [OF False] obtain k where
    k: "k \<in> bucket_day ` set ds" "\<forall>j. day_count ds j \<le> day_count ds k"
       "detect_bulk_update_spike ds =
               (70 \<le> round_nd 1 (100 * of_nat (day_count ds k) / of_nat (length ds))
                  \<and> 30 \<le> length ds,
                Some k,
                round_nd 1 (100 * of_nat (day_count ds k) / of_nat (length ds)))"
    by blast
  from False have n: "0 < length ds" by simp
  from k(3) assms have eqs: "label = Some k"
      "dp = round_nd 1 (100 * of_nat (day_count ds k) / of_nat (length ds))"
      "is_bulk = (70 \<le> dp \<and> 30 \<le> length ds)"
    by simp_all
  have "(70 \<le> dp) = (1399 * length ds \<le> 2000 * day_count ds k)"
    unfolding eqs(2) round1_ge_70 by (rule share_ge [OF n])
  with eqs k(1,2) show ?thesis by simp
qed

lemma day_count_two:
  assumes "bucket_day a \<noteq> bucket_day b"
  shows "day_count (replicate m a @ replicate n b) k =
           (if k = bucket_day a then m else if k = bucket_day b then n else 0)"
  using assms by (auto simp: day_count_def)

lemma detect_two_days:
  assumes ab: "bucket_day a \<noteq> bucket_day b" and mn: "n < m"
  shows "detect_bulk_update_spike (replicate m a @ replicate n b) =
           (70 \<le> round_nd 1 (100 * of_nat m / of_nat (m + n)) \<and> 30 \<le> m + n,
            Some (bucket_day a),
            round_nd 1 (100 * of_nat m / of_nat (m + n)))"
proof -
  let ?ds = "replicate m a @ replicate n b"
  from mn have "?ds \<noteq> []" by auto
  from detect_top [OF this] obtain k where
    k: "k \<in> bucket_day ` set ?ds" "\<forall>j. day_count ?ds j \<le> day_count ?ds k"
       "detect_bulk_update_spike ?ds =
               (70 \<le> round_nd 1 (100 * of_nat (day_count ?ds k) / of_nat (length ?ds))
                  \<and> 30 \<le> length ?ds,
                Some k,
                round_nd 1 (100 * of_nat (day_count ?ds k) / of_nat (length ?ds)))"
    by blast
  from k(2) have "day_count ?ds (bucket_day a) \<le> day_count ?ds k" by blast
  then have "k = bucket_day a"
    using mn by (simp add: day_count_two [OF ab] split: if_splits)
  with k(3) show ?thesis by (simp add: day_count_two [OF ab])
qed

lemma day_2024: "bucket_day 1704067200000000 = ''2024-01-01''"
  by code_simp

lemma day_1970: "bucket_day 0 = ''1970-01-01''"
  by code_simp

lemma spike_142_of_203:
  "detect_bulk_update_spike (replicate 142 1704067200000000 @ replicate 61 0)
     = (True, Some ''2024-01-01'', 70)"
proof -
  have r: "round_nd 1 (100 * of_nat 142 / of_nat (142 + 61)) = 70" by code_simp
  show ?thesis
    using detect_two_days [of 1704067200000000 0 61 142] r
    by (simp add: day_2024 day_1970)
qed

text \<open>
  C4 as stated flags a day only from a share of 70 percent on. With 142 of 203 updates on
  one day the share is below 70 percent, rounds to 70.0, and the pattern is flagged.
\<close>

theorem detect_bulk_update_spike_counterexample:
  "fst (detect_bulk_update_spike (replicate 142 1704067200000000 @ replicate 61 0)) = True
   \<and> day_count (replicate 142 1704067200000000 @ replicate 61 0) ''2024-01-01'' = 142
   \<and> length (replicate 142 (1704067200000000::int) @ replicate 61 0) = 203
   \<and> 100 * 142 < 70 * (203::nat)"
  by (simp add: spike_142_of_203 day_count_two day_2024 day_1970)

lemma spike_10_of_10:
  "detect_bulk_update_spike (replicate 10 0 @ replicate 0 1704067200000000)
     = (False, Some ''1970-01-01'', 100)"
proof -
  have r: "round_nd 1 (100 * of_nat 10 / of_nat (10 + 0)) = 100" by code_simp
  show ?thesis
    using detect_two_days [of 0 1704067200000000 0 10] r
    by (simp add: day_2024 day_1970)
qed

lemma spike_30_of_40:
  "detect_bulk_update_spike (replicate 30 1704067200000000 @ replicate 10 0)
     = (True, Some ''2024-01-01'', 75)"
proof -
  have r: "round_nd 1 (100 * of_nat 30 / of_nat (30 + 10)) = 75" by code_simp
  show ?thesis
    using detect_two_days [of 1704067200000000 0 10 30] r
    by (simp add: day_2024 day_1970)
qed


theorem detect_bulk_update_spike_flag_witness:
  "detect_bulk_update_spike (replicate 30 1704067200000000 @ replicate 10 0)
     = (True, Some ''2024-01-01'', 75)
   \<and> True = (1399 * length (replicate 30 (1704067200000000::int) @ replicate 10 0)
                 \<le> 2000 * day_count (replicate 30 1704067200000000 @ replicate 10 0) ''2024-01-01''
               \<and> 30 \<le> length (replicate 30 (1704067200000000::int) @ replicate 10 0))
   \<and> fst (detect_bulk_update_spike (replicate 10 0 @ replicate 0 1704067200000000)) = False"
  using detect_bulk_update_spike_flag [OF spike_30_of_40] spike_30_of_40 spike_10_of_10
  by simp




section \<open>Meaningful updates\<close>




section \<open>The assembled report\<close>

lemma insert_desc_replicate:
  "insert_desc key p (replicate n p) = Inr (p # replicate n p)"
  by (cases n; cases "key p") simp_all

lemma sorted_desc_replicate: "sorted_desc key (replicate n p) = Inr (replicate n p)"
  by (induction n) (simp_all add: insert_desc_replicate)

lemma analyze_products_replicate:
  "analyze_products clk (replicate n p) = Inr (assemble clk (replicate n p) (take 10 (replicate n p)))"
  by (simp add: analyze_products_def sorted_desc_replicate)

lemma analyze_products_Inr:
  "analyze_products clk ps = Inr r \<Longrightarrow> \<exists>newest. r = assemble clk ps newest"
  by (auto simp: analyze_products_def split: sum.splits)

text \<open>
  C1 asks that \<^verbatim>\<open>analyze_products\<close> returns a report for every list of records. On a
  list of a record with a creation instant and a record without one, the sort of the
  newest records compares an aware datetime with the naive \<^verbatim>\<open>datetime.min\<close>, and the call
  raises \<^verbatim>\<open>TypeError\<close>, whatever the clock shows.
\<close>

theorem analyze_products_raises:
  "analyze_products clk [dated_record, undated_record] = Inl TypeError"
  by (simp add: analyze_products_def newest_dt_def created_dt_def parse_dt_def or_else_def
      dated_record_def undated_record_def)







section \<open>Shares in percent\<close>




























section \<open>Readings of the clock\<close>










section \<open>No repeated sentence\<close>

lemma digit_char_in: "digit_char n \<in> set ''0123456789''"
proof -
  have "n mod 10 < length ''0123456789''" by simp
  then show ?thesis unfolding digit_char_def by (rule nth_mem)
qed

lemma digit_char_numeric: "digit_char n \<in> set ''-.0123456789''"
  using digit_char_in [of n] by auto

lemma str_nat_chars: "set (str_nat n) \<subseteq> set ''-.0123456789''"
proof (induction n rule: str_nat.induct)
  case (1 n)
  show ?case
  proof (cases "n < 10")
    case True
    then have "str_nat n = [digit_char n]" by simp
    then show ?thesis using digit_char_numeric [of n] by simp
  next
    case False
    then have e: "str_nat n = str_nat (n div 10) @ [digit_char (n mod 10)]" by simp
    from 1 False have "set (str_nat (n div 10)) \<subseteq> set ''-.0123456789''" by simp
    then show ?thesis unfolding e using digit_char_numeric [of "n mod 10"] by simp
  qed
qed

lemma str_nat_nonempty: "str_nat n \<noteq> []"
  by (subst str_nat.simps) simp

lemma numeric_str_nat: "numeric (str_nat n)"
  by (simp only: numeric_def str_nat_nonempty str_nat_chars not_False_eq_True simp_thms)

lemma sign_minus_chars: "set (sign_minus x) \<subseteq> set ''-.0123456789''"
  by (auto simp: sign_minus_def)

lemma numeric_str_float: "numeric (str_float x)"
proof -
  have "set (str_float x) \<subseteq> set ''-.0123456789''"
    unfolding str_float_def Let_def
    using sign_minus_chars [of x] str_nat_chars digit_char_numeric
    by (auto simp del: str_nat.simps)
  moreover have "str_float x \<noteq> []" by (simp add: str_float_def Let_def)
  ultimately show ?thesis by (simp only: numeric_def simp_thms)
qed

lemma numeric_cases:
  assumes "numeric s"
  obtains c t where "s = c # t" and "c \<in> set ''-.0123456789''"
    and "CHR ''%'' \<notin> set s"
proof -
  from assms obtain c t where s: "s = c # t" by (cases s) (auto simp: numeric_def)
  from assms s have c: "c \<in> set ''-.0123456789''" by (auto simp: numeric_def)
  from assms have "CHR ''%'' \<notin> set s" by (auto simp: numeric_def)
  with s c that show ?thesis by blast
qed

lemma drop_to_percent:
  assumes "numeric s"
  shows "dropWhile (\<lambda>c. c \<noteq> CHR ''%'') (s @ CHR ''%'' # t) = CHR ''%'' # t"
proof -
  from assms have "CHR ''%'' \<notin> set s" by (auto simp: numeric_def)
  then have "\<forall>c \<in> set s. c \<noteq> CHR ''%''" by blast
  then have "dropWhile (\<lambda>c. c \<noteq> CHR ''%'') s = []" by simp
  then show ?thesis by (simp add: dropWhile_append3)
qed

lemma kind_numeric:
  assumes "numeric s"
  shows "takeaway_kind (s @ CHR ''%'' # t) =
           (if take 11 t = '' of catalog'' then 4
            else if take 16 t = '' of products are'' then 5
            else if take 17 t = '' of products show'' then 6
            else 0)"
proof -
  from assms obtain c u where s: "s = c # u" and c: "c \<in> set ''-.0123456789''"
    by (rule numeric_cases)
  have r: "dropWhile (\<lambda>c. c \<noteq> CHR ''%'') (s @ CHR ''%'' # t) = CHR ''%'' # t"
    by (rule drop_to_percent [OF assms])
  have h: "take 3 (s @ CHR ''%'' # t) = c # take 2 (u @ CHR ''%'' # t)"
    by (simp add: s)
  from c have ne: "c \<noteq> CHR ''H''" "c \<noteq> CHR ''M''" "c \<noteq> CHR ''L''" "c \<noteq> CHR ''P''"
      "c \<noteq> CHR ''B''" "c \<noteq> CHR ''C''" "c \<noteq> CHR ''T''" "c \<noteq> CHR ''N''"
    by auto
  have k: "takeaway_kind (s @ CHR ''%'' # t) = share_kind (CHR ''%'' # t)"
    unfolding takeaway_kind_def Let_def r h by (simp add: ne)
  show ?thesis unfolding k share_kind_def by simp
qed

lemma kind_velocity: "takeaway_kind (velocity_insight v shown) = 1"
  by (simp add: takeaway_kind_def velocity_insight_def)

lemma kind_accelerating: "takeaway_kind (accelerating_insight a) = 2"
  by (simp add: takeaway_kind_def accelerating_insight_def)

lemma kind_decelerating: "takeaway_kind (decelerating_insight a) = 2"
  by (simp add: takeaway_kind_def decelerating_insight_def)

lemma kind_strategy:
  assumes "strat = ''Premium expansion'' \<or> strat = ''Budget expansion''
             \<or> strat = ''Consistent positioning''"
  shows "takeaway_kind (strategy_insight strat n c d) = 3"
  using assms by (auto simp: takeaway_kind_def strategy_insight_def)

lemma kind_recency: "takeaway_kind (recency_insight p c) = 4"
  using kind_numeric [OF numeric_str_float, of p]
  by (simp add: recency_insight_def)

lemma kind_stock: "takeaway_kind (stock_takeaway p) = 5"
  using kind_numeric [OF numeric_str_float, of p]
  by (simp add: stock_takeaway_def)

lemma kind_discount: "takeaway_kind (discount_takeaway p) = 6"
  using kind_numeric [OF numeric_str_float, of p]
  by (simp add: discount_takeaway_def)

lemma kind_pricing: "takeaway_kind (pricing_takeaway lo hi med) = 7"
  by (simp add: takeaway_kind_def pricing_takeaway_def)

lemma kind_band: "takeaway_kind (band_takeaway b p) = 8"
  by (simp add: takeaway_kind_def band_takeaway_def)

lemma kind_newest: "takeaway_kind (newest_takeaway a b) = 9"
  by (simp add: takeaway_kind_def newest_takeaway_def)

lemma kind_variants: "takeaway_kind (variants_takeaway a) = 10"
  by (simp add: takeaway_kind_def variants_takeaway_def)

lemma ranked_Nil: "lo \<le> hi \<Longrightarrow> ranked k lo hi []"
  by (simp add: ranked_def)

lemma ranked_single: "k x = n \<Longrightarrow> ranked k n (n + 1) [x]"
  by (simp add: ranked_def)

lemma ranked_opt: "k x = n \<Longrightarrow> ranked k n (n + 1) (opt b x)"
  by (cases b) (simp_all add: ranked_def opt_def)

lemma ranked_append:
  assumes "ranked k a b xs" and "ranked k b c ys"
  shows "ranked k a c (xs @ ys)"
proof -
  from assms have ab: "a \<le> b" and bc: "b \<le> c" by (simp_all add: ranked_def)
  have lt: "k x < k y" if "x \<in> set xs" "y \<in> set ys" for x y
  proof -
    from assms(1) that(1) have "k x < b" by (simp add: ranked_def)
    moreover from assms(2) that(2) have "b \<le> k y" by (simp add: ranked_def)
    ultimately show ?thesis by simp
  qed
  have s: "sorted_wrt (<) (map k (xs @ ys))"
    using assms lt by (simp add: ranked_def sorted_wrt_append)
  have r: "a \<le> k x \<and> k x < c" if "x \<in> set (xs @ ys)" for x
  proof (cases "x \<in> set xs")
    case True
    with assms(1) have "a \<le> k x" "k x < b" by (simp_all add: ranked_def)
    with bc show ?thesis by simp
  next
    case False
    with that have "x \<in> set ys" by simp
    with assms(2) have "b \<le> k x" "k x < c" by (simp_all add: ranked_def)
    with ab show ?thesis by simp
  qed
  from ab bc s r show ?thesis unfolding ranked_def by auto
qed

lemma ranked_distinct:
  assumes "ranked k lo hi xs"
  shows "distinct xs"
proof -
  from assms have "sorted_wrt (<) (map k xs)" by (simp add: ranked_def)
  then have "distinct (map k xs)" using strict_sorted_iff by blast
  then show ?thesis by (simp add: distinct_map)
qed

lemma strategy_label_cases:
  "strategy_label x = ''Premium expansion'' \<or> strategy_label x = ''Budget expansion''
     \<or> strategy_label x = ''Consistent positioning''"
  by (simp add: strategy_label_def split: option.splits)

lemma strategy_is_label:
  assumes "analyze_launch_timeline now ps = Launch d"
  shows "\<exists>x. strategy d = strategy_label x"
proof -
  from assms have ne: "ps \<noteq> []" "dated_products ps \<noteq> []"
    by (auto simp: analyze_launch_timeline_def Let_def split: if_splits)
  from assms have "d = (case analyze_launch_timeline now ps of Launch e \<Rightarrow> e)"
    by simp
  then have "strategy d = strategy (case analyze_launch_timeline now ps of Launch e \<Rightarrow> e)"
    by simp
  also have "\<dots> = strategy_label (launch_delta_pct
       (rounded_median (positive_prices (map snd
          (launch_group (now - timedelta_days 90) (dated_products ps)))))
       (rounded_median (positive_prices (map (\<lambda>p. safe_float (price_min p)) ps))))"
    using ne by (simp add: analyze_launch_timeline_def Let_def strategy_label_def)
  finally show ?thesis by blast
qed

lemma strategy_labels:
  assumes "analyze_launch_timeline now ps = Launch d"
  shows "strategy d = ''Premium expansion'' \<or> strategy d = ''Budget expansion''
           \<or> strategy d = ''Consistent positioning''"
proof -
  from strategy_is_label [OF assms] obtain x where "strategy d = strategy_label x" by blast
  then show ?thesis using strategy_label_cases [of x] by simp
qed

lemma launch_insights_ranked:
  assumes "\<And>d. l = Launch d \<Longrightarrow> strategy d = ''Premium expansion'' \<or> strategy d = ''Budget expansion''
           \<or> strategy d = ''Consistent positioning''"
  shows "ranked takeaway_kind 1 5 (generate_launch_insights l)"
proof -
  have v: "ranked takeaway_kind 1 5 [velocity_insight 0 ''0'']"
    by (simp add: ranked_def kind_velocity)
  show ?thesis
  proof (cases l)
    case LaunchEmpty
    then show ?thesis using v by (simp add: generate_launch_insights_def)
  next
    case LaunchError
    then show ?thesis using v by (simp add: generate_launch_insights_def)
  next
    case (Launch d)
    let ?a = "[velocity_insight (velocity_last_30d d) (str_float (velocity_last_30d d))]"
    let ?b = "if trend d = ''Accelerating'' \<and> truthy_float (accel_30d_vs_90d_pct d)
             then [accelerating_insight (the (accel_30d_vs_90d_pct d))]
             else if trend d = ''Decelerating'' \<and> truthy_float (accel_30d_vs_90d_pct d)
             then [decelerating_insight (the (accel_30d_vs_90d_pct d))]
             else []"
    let ?c = "if strategy d \<noteq> [] \<and> delta_90d_pct d \<noteq> None
                \<and> truthy_float (new_90d_median d) \<and> truthy_float (catalog_median d)
             then [strategy_insight (strategy d) (the (new_90d_median d))
                     (the (catalog_median d)) (the (delta_90d_pct d))]
             else []"
    let ?d = "opt (5 \<le> pct_30d d) (recency_insight (pct_30d d) (count_30d d))"
    have a: "ranked takeaway_kind 1 2 ?a"
      using ranked_single [where k = takeaway_kind, OF kind_velocity]
      by (simp add: numeral_2_eq_2)
    have b: "ranked takeaway_kind 2 3 ?b"
      using ranked_single [where k = takeaway_kind, OF kind_accelerating] ranked_single [where k = takeaway_kind, OF kind_decelerating]
      by (simp add: ranked_Nil)
    have c: "ranked takeaway_kind 3 4 ?c"
      using ranked_single [where k = takeaway_kind, OF kind_strategy [OF assms [OF Launch]]]
      by (simp add: ranked_Nil)
    have d: "ranked takeaway_kind 4 5 ?d"
      using ranked_opt [where k = takeaway_kind, OF kind_recency] by simp
    have "ranked takeaway_kind 1 5 (?a @ ?b @ ?c @ ?d)"
      by (rule ranked_append [OF a ranked_append [OF b ranked_append [OF c d]]])
    moreover have "generate_launch_insights l = ?a @ ?b @ ?c @ ?d"
      unfolding Launch by (simp add: generate_launch_insights_def)
    ultimately show ?thesis by simp
  qed
qed

lemma catalog_takeaways_ranked:
  "ranked takeaway_kind 5 11 (takeaways_of LaunchEmpty newest ps)"
proof (cases "ps = []")
  case True
  then show ?thesis by (simp add: takeaways_of_def ranked_Nil)
next
  case False
  let ?pos = "prices_pos ps"
  let ?np = "somes (map (\<lambda>p. safe_float (price_min p)) newest)"
  let ?s = "[stock_takeaway (pct (length (filter available ps)) (length ps))]"
  let ?d = "[discount_takeaway (pct (length (discounts ps)) (length ps))]"
  let ?p = "if ?pos \<noteq> [] then [pricing_takeaway (Min (set ?pos)) (Max (set ?pos)) (median ?pos)]
            else []"
  let ?b = "case most_common1 (bucket_counts ps) of
              None \<Rightarrow> []
            | Some (top_bucket, top_bucket_count) \<Rightarrow>
                [band_takeaway top_bucket (pct top_bucket_count (length ps))]"
  let ?n = "if ?pos \<noteq> [] \<and> ?np \<noteq> [] then [newest_takeaway (median ?np) (median ?pos)]
            else []"
  let ?v = "case avg_variants ps of None \<Rightarrow> [] | Some av \<Rightarrow> [variants_takeaway av]"
  have s: "ranked takeaway_kind 5 6 ?s" using ranked_single [where k = takeaway_kind, OF kind_stock] by simp
  have d: "ranked takeaway_kind 6 7 ?d" using ranked_single [where k = takeaway_kind, OF kind_discount] by simp
  have p: "ranked takeaway_kind 7 8 ?p"
    using ranked_single [where k = takeaway_kind, OF kind_pricing] by (simp add: ranked_Nil)
  have b: "ranked takeaway_kind 8 9 ?b"
    using ranked_single [where k = takeaway_kind, OF kind_band] by (simp add: ranked_Nil split: option.splits)
  have n: "ranked takeaway_kind 9 10 ?n"
    using ranked_single [where k = takeaway_kind, OF kind_newest] by (simp add: ranked_Nil)
  have v: "ranked takeaway_kind 10 11 ?v"
    using ranked_single [where k = takeaway_kind, OF kind_variants] by (simp add: ranked_Nil split: option.splits)
  have "ranked takeaway_kind 5 11 (?s @ ?d @ ?p @ ?b @ ?n @ ?v)"
    by (rule ranked_append [OF s ranked_append [OF d ranked_append [OF p
          ranked_append [OF b ranked_append [OF n v]]]]])
  moreover have "takeaways_of LaunchEmpty newest ps = ?s @ ?d @ ?p @ ?b @ ?n @ ?v"
    using False by (simp add: takeaways_of_def Let_def)
  ultimately show ?thesis by simp
qed

lemma takeaways_of_split:
  "takeaways_of l newest ps =
     (if l \<noteq> LaunchEmpty then generate_launch_insights l else [])
     @ takeaways_of LaunchEmpty newest ps"
  by (simp add: takeaways_of_def Let_def)

lemma takeaways_distinct:
  "distinct (takeaways_of (analyze_launch_timeline now ps) newest ps)"
proof -
  let ?l = "analyze_launch_timeline now ps"
  let ?a = "if ?l \<noteq> LaunchEmpty then generate_launch_insights ?l else []"
  let ?b = "takeaways_of LaunchEmpty newest ps"
  have "ranked takeaway_kind 1 5 (generate_launch_insights ?l)"
    by (rule launch_insights_ranked) (rule strategy_labels)
  then have a: "ranked takeaway_kind 1 5 ?a" by (simp add: ranked_Nil)
  have "ranked takeaway_kind 1 11 (?a @ ?b)"
    by (rule ranked_append [OF a catalog_takeaways_ranked])
  then have "distinct (?a @ ?b)" by (rule ranked_distinct)
  then show ?thesis by (subst takeaways_of_split)
qed

lemma note_kind_numeric:
  assumes "numeric s"
  shows "note_kind (s @ t) = 1"
proof -
  from assms obtain c u where s: "s = c # u" and c: "c \<in> set ''-.0123456789''"
    by (rule numeric_cases)
  from c have ne: "c \<noteq> CHR ''N''" "c \<noteq> CHR ''C''" "c \<noteq> CHR ''U''" "c \<noteq> CHR ''L''"
      "c \<noteq> CHR ''T''" "c \<noteq> CHR ''D''" "c \<noteq> CHR ''P''" "c \<noteq> CHR ''I''"
    by auto
  have h: "take 4 (s @ t) = c # take 3 (u @ t)" "take 8 (s @ t) = c # take 7 (u @ t)"
    by (simp_all add: s)
  show ?thesis unfolding note_kind_def Let_def h by (simp add: ne)
qed

lemma kind_zero_price: "note_kind (zero_price_note n) = 1"
  unfolding zero_price_note_def by (rule note_kind_numeric [OF numeric_str_nat])

lemma kind_no_pricing: "note_kind no_pricing_note = 2"
  by (simp add: note_kind_def no_pricing_note_def)

lemma kind_created_missing: "note_kind (created_missing_note cm) = 3"
  by (simp add: note_kind_def created_missing_note_def)

lemma kind_updated_missing: "note_kind (updated_missing_note um) = 4"
  by (simp add: note_kind_def updated_missing_note_def)

lemma kind_low_discount: "note_kind low_discount_note = 5"
  by (simp add: note_kind_def low_discount_note_def)

lemma kind_bulk: "note_kind (bulk_note p b a) = 6"
  by (simp add: note_kind_def bulk_note_def)

lemma coverage_notes_ranked: "ranked note_kind 7 12 (compute_confidence_notes ps)"
  by (simp add: compute_confidence_notes_def Let_def ranked_def note_kind_def)

lemma notes_distinct: "distinct (confidence_notes_of out_updates ps)"
proof -
  let ?total = "length ps"
  let ?cm = "pct (count_where (\<lambda>p. parse_dt (created_at p) = None) ps) ?total"
  let ?um = "pct (count_where (\<lambda>p. parse_dt (updated_at p) = None) ps) ?total"
  let ?z = "opt (?total \<noteq> 0 \<and> 0 < zero_price_count ps) (zero_price_note (zero_price_count ps))"
  let ?n = "opt (?total \<noteq> 0 \<and> priced_count ps = 0) no_pricing_note"
  let ?c = "opt (?total \<noteq> 0 \<and> 20 < ?cm) (created_missing_note ?cm)"
  let ?u = "opt (?total \<noteq> 0 \<and> 20 < ?um) (updated_missing_note ?um)"
  let ?l = "opt (?total \<noteq> 0 \<and> pct (length (discounted_prices ps)) ?total < 5) low_discount_note"
  let ?b = "case out_updates of
              None \<Rightarrow> []
            | Some u \<Rightarrow>
                opt (bulk_update_flag u)
                  (bulk_note (bulk_update_dominant_pct u) (bulk_update_bucket u)
                     (bulk_filter_applied u))"
  have z: "ranked note_kind 1 2 ?z"
    using ranked_opt [where k = note_kind, OF kind_zero_price] by (simp add: numeral_2_eq_2)
  have n: "ranked note_kind 2 3 ?n"
    using ranked_opt [where k = note_kind, OF kind_no_pricing] by simp
  have c: "ranked note_kind 3 4 ?c"
    using ranked_opt [where k = note_kind, OF kind_created_missing] by simp
  have u: "ranked note_kind 4 5 ?u"
    using ranked_opt [where k = note_kind, OF kind_updated_missing] by simp
  have l: "ranked note_kind 5 6 ?l"
    using ranked_opt [where k = note_kind, OF kind_low_discount] by simp
  have b: "ranked note_kind 6 7 ?b"
    using ranked_opt [where k = note_kind, OF kind_bulk]
    by (simp add: ranked_Nil split: option.splits)
  have "ranked note_kind 1 12 (?z @ ?n @ ?c @ ?u @ ?l @ ?b @ compute_confidence_notes ps)"
    by (rule ranked_append [OF z ranked_append [OF n ranked_append [OF c
          ranked_append [OF u ranked_append [OF l ranked_append [OF b
          coverage_notes_ranked]]]]]])
  moreover have "confidence_notes_of out_updates ps
                   = ?z @ ?n @ ?c @ ?u @ ?l @ ?b @ compute_confidence_notes ps"
    by (simp add: confidence_notes_of_def Let_def)
  ultimately show ?thesis using ranked_distinct by metis
qed

text \<open>
  C7. In every report the takeaways are pairwise different strings, and so are the
  confidence notes: no string stands twice in either list.
\<close>

theorem no_duplicate_sentences:
  assumes "analyze_products clk ps = Inr r"
  shows "distinct (takeaways r) \<and> distinct (confidence_notes r)"
proof -
  from analyze_products_Inr [OF assms] obtain newest where r: "r = assemble clk ps newest"
    by blast
  have t: "takeaways r = takeaways_of (analyze_launch_timeline (clock_launch clk) ps) newest ps"
    unfolding r by (simp add: assemble_def Let_def)
  have n: "confidence_notes r
             = confidence_notes_of
                 (map_option snd (compute_new_vs_old_and_updates (clock_updates clk) ps)) ps"
    unfolding r by (simp add: assemble_def Let_def)
  show ?thesis unfolding t n using takeaways_distinct notes_distinct by blast
qed

theorem no_duplicate_sentences_witness:
  "\<exists>r. analyze_products (clock_at 1705276800000000) (replicate 3 dated_record) = Inr r
       \<and> distinct (takeaways r) \<and> distinct (confidence_notes r)"
proof -
  let ?r = "assemble (clock_at 1705276800000000) (replicate 3 dated_record)
              (take 10 (replicate 3 dated_record))"
  have run: "analyze_products (clock_at 1705276800000000) (replicate 3 dated_record) = Inr ?r"
    by (rule analyze_products_replicate)
  from no_duplicate_sentences [OF run] run show ?thesis by blast
qed

end
